theory Spec2Isabelle
  imports Main
begin

section \<open>Strings\<close>

text \<open>
  A JavaScript string is a sequence of UTF-16 code units; \<^verbatim>\<open>length\<close>, \<^verbatim>\<open>charAt\<close> and
  \<^verbatim>\<open>slice\<close> count code units. A string is modelled as the list of its code units, each a
  natural number (below 65536 in a string of the language). \<open>lit\<close> writes a string of
  ASCII characters.
\<close>

type_synonym js_string = "nat list"

abbreviation lit :: "string \<Rightarrow> js_string" where
  "lit s \<equiv> map of_char s"

section \<open>Failures and thrown values\<close>

text \<open>
  The failures that leave the modelled code: a TypeError of the engine (property access
  on \<^verbatim>\<open>undefined\<close> or \<^verbatim>\<open>null\<close>, call of a non-function, a value that cannot be
  converted to a string), \<^verbatim>\<open>new Error(msg)\<close>, and any other value raised by code that
  is not in the file (a getter or a conversion method of a thrown value), named by a
  label.
\<close>

datatype js_exn = TypeError | Error js_string | Foreign js_string

text \<open>
  A \<^verbatim>\<open>catch\<close> clause receives whatever value was thrown. The code of
  \<^verbatim>\<open>src/tools/others.js\<close> observes a caught value in two ways only: it renders the value
  in a template literal, \<^verbatim>\<open>${error}\<close> (the two tool handlers), and it renders its
  \<^verbatim>\<open>message\<close> property in a template literal, \<^verbatim>\<open>${err.message}\<close>
  (\<^verbatim>\<open>retryOperation\<close>). Either observation yields a string or raises: reading a
  property of \<^verbatim>\<open>undefined\<close> or \<^verbatim>\<open>null\<close> raises a TypeError, so does the conversion
  of a symbol to a string, and a getter or a \<^verbatim>\<open>toString\<close> method may raise anything.
  A thrown value other than \<^verbatim>\<open>undefined\<close> and \<^verbatim>\<open>null\<close> is modelled by the outcomes of
  the two observations, which are taken to be repeatable: \<open>Thrown_value r m\<close> renders as
  \<open>r\<close> and its message renders as \<open>m\<close>. For \<^verbatim>\<open>new Error("boom")\<close> these are
  \<open>Inr (lit ''Error: boom'')\<close> and \<open>Inr (lit ''boom'')\<close>; for a thrown string \<^verbatim>\<open>"x"\<close> they
  are \<open>Inr (lit ''x'')\<close> and \<open>Inr (lit ''undefined'')\<close>; for \<^verbatim>\<open>{message: Symbol()}\<close> the
  second is \<open>Inl TypeError\<close>.
\<close>

datatype js_thrown =
    Thrown_undefined
  | Thrown_null
  | Thrown_value "js_exn + js_string" "js_exn + js_string"

text \<open>\<^verbatim>\<open>${err.message}\<close>\<close>

fun message_of :: "js_thrown \<Rightarrow> js_exn + js_string" where
  "message_of Thrown_undefined = Inl TypeError"
| "message_of Thrown_null = Inl TypeError"
| "message_of (Thrown_value r m) = m"

text \<open>\<^verbatim>\<open>${error}\<close>\<close>

fun render_thrown :: "js_thrown \<Rightarrow> js_exn + js_string" where
  "render_thrown Thrown_undefined = Inr (lit ''undefined'')"
| "render_thrown Thrown_null = Inr (lit ''null'')"
| "render_thrown (Thrown_value r m) = r"

section \<open>Integers rendered in template literals\<close>

text \<open>The decimal digits of an integer, as a template literal renders a number that is
  an integer of magnitude below \<open>2 ^ 53\<close>.\<close>

fun show_nat :: "nat \<Rightarrow> js_string" where
  "show_nat n = (if n < 10 then [48 + n] else show_nat (n div 10) @ [48 + n mod 10])"

declare show_nat.simps [simp del]

definition show_int :: "int \<Rightarrow> js_string" where
  "show_int i = (if i < 0 then 45 # show_nat (nat (- i)) else show_nat (nat i))"

section \<open>retryOperation\<close>

text \<open>
  The observable effects of \<^verbatim>\<open>retryOperation\<close>, in the order they happen: an invocation
  of \<^verbatim>\<open>fn\<close>, a line written by \<^verbatim>\<open>console.log\<close>, and a suspension
  \<^verbatim>\<open>await delay(delayMs)\<close>.
\<close>

datatype event = Invoked | Logged js_string | Waited int

text \<open>
  The operation \<^verbatim>\<open>fn\<close> is an opaque zero-argument asynchronous function; it is modelled
  by the outcome of each of its successive invocations: \<open>fn i\<close> is what the invocation
  preceded by \<open>i\<close> earlier ones settles to, \<open>Inr v\<close> a result and \<open>Inl e\<close> a rejection
  with the thrown value \<open>e\<close>. The parameters \<^verbatim>\<open>maxRetries\<close> and \<^verbatim>\<open>delayMs\<close> are
  integer-valued numbers of magnitude below \<open>2 ^ 53\<close>, on which the loop counter is
  exact.

  \<open>retry_loop\<close> is the \<^verbatim>\<open>for\<close> loop of lines 21 to 38 together with the
  \<^verbatim>\<open>throw\<close> of lines 41 to 43 that follows it. Its state is the loop counter
  \<open>attempt\<close>, the variable \<open>error\<close> (initially \<^verbatim>\<open>undefined\<close>) and the trace of
  events so far. A failure raised while the catch block renders \<^verbatim>\<open>err.message\<close>
  (line 27) leaves the function at once.
\<close>

definition invocations :: "event list \<Rightarrow> nat" where
  "invocations tr = length (filter (\<lambda>e. e = Invoked) tr)"

definition waits :: "event list \<Rightarrow> int list" where
  "waits tr = concat (map (\<lambda>e. case e of Waited d \<Rightarrow> [d] | _ \<Rightarrow> []) tr)"

function retry_loop ::
  "(nat \<Rightarrow> js_thrown + 'a) \<Rightarrow> int \<Rightarrow> int \<Rightarrow> int \<Rightarrow> js_thrown \<Rightarrow> event list
     \<Rightarrow> (js_exn + 'a) \<times> event list" where
  "retry_loop fn maxRetries delayMs attempt error tr =
     (if attempt \<le> maxRetries then
        (case fn (invocations tr) of
           Inr v \<Rightarrow> (Inr v, tr @ [Invoked])
         | Inl err \<Rightarrow>
             (case message_of err of
                Inl e \<Rightarrow> (Inl e, tr @ [Invoked])
              | Inr m \<Rightarrow>
                  (let tr1 = tr @ [Invoked,
                               Logged (lit ''Attempt '' @ show_int attempt @ lit '' failed: '' @ m)]
                   in if attempt < maxRetries then
                        retry_loop fn maxRetries delayMs (attempt + 1) err
                          (tr1 @ [Logged (lit ''Waiting '' @ show_int delayMs
                                            @ lit ''ms before next attempt...''),
                                  Waited delayMs])
                      else
                        retry_loop fn maxRetries delayMs (attempt + 1) err
                          (tr1 @ [Logged (lit ''All '' @ show_int maxRetries
                                            @ lit '' attempts failed.'')]))))
      else
        (case message_of error of
           Inl e \<Rightarrow> (Inl e, tr)
         | Inr m \<Rightarrow>
             (Inl (Error (lit ''Operation failed after '' @ show_int maxRetries
                            @ lit '' attempts: '' @ m)), tr)))"
  by pat_completeness auto
termination
  by (relation "measure (\<lambda>(fn, maxRetries, delayMs, attempt, error, tr).
                   nat (maxRetries + 1 - attempt))") auto

declare retry_loop.simps [simp del]

definition retryOperation ::
  "(nat \<Rightarrow> js_thrown + 'a) \<Rightarrow> int \<Rightarrow> int \<Rightarrow> (js_exn + 'a) \<times> event list" where
  "retryOperation fn maxRetries delayMs = retry_loop fn maxRetries delayMs 0 Thrown_undefined []"

text \<open>The default parameter \<^verbatim>\<open>delayMs = 1000\<close>.\<close>

definition retryOperation_default ::
  "(nat \<Rightarrow> js_thrown + 'a) \<Rightarrow> int \<Rightarrow> (js_exn + 'a) \<times> event list" where
  "retryOperation_default fn maxRetries = retryOperation fn maxRetries 1000"

section \<open>Tool calls and response envelopes\<close>

text \<open>
  JavaScript data values as they occur in tool-call arguments and in response envelopes:
  plain data as a JSON document holds it, and \<^verbatim>\<open>undefined\<close>. An object is the list of
  its own enumerable properties in enumeration order (keys distinct); its prototype is
  \<^verbatim>\<open>Object.prototype\<close> and none of its properties is callable. The code observes a
  number in one way only, by converting it to a string, and distinct numbers convert to
  distinct strings: a number is given by the string \<^verbatim>\<open>String(n)\<close>.
\<close>

datatype jsval =
    Undefined
  | Null
  | Bool bool
  | Num js_string
  | Str js_string
  | Arr "jsval list"
  | Obj "(js_string \<times> jsval) list"

text \<open>
  The \<^verbatim>\<open>args\<close> of a tool call: a mapping from parameter names to values, or absent
  (\<^verbatim>\<open>undefined\<close> or \<^verbatim>\<open>null\<close>). The \<^verbatim>\<open>name\<close> of a tool call is a string, or
  absent (\<^verbatim>\<open>undefined\<close>).
\<close>

datatype js_args = Args_undefined | Args_null | Args_obj "(js_string \<times> jsval) list"

record toolcall =
  tc_name :: "js_string option"
  tc_args :: js_args

text \<open>\<^verbatim>\<open>args.key\<close>: raises a TypeError on absent \<^verbatim>\<open>args\<close>; a property the object does
  not have reads as \<^verbatim>\<open>undefined\<close>.\<close>

fun get_arg :: "js_args \<Rightarrow> js_string \<Rightarrow> js_exn + jsval" where
  "get_arg Args_undefined key = Inl TypeError"
| "get_arg Args_null key = Inl TypeError"
| "get_arg (Args_obj kvs) key = Inr (case map_of kvs key of None \<Rightarrow> Undefined | Some v \<Rightarrow> v)"

text \<open>The array literal \<^verbatim>\<open>[{functionResponse: {name: name, response: {...}}}]\<close> that all
  three operations build.\<close>

definition function_call_result_message :: "jsval \<Rightarrow> (js_string \<times> jsval) list \<Rightarrow> jsval" where
  "function_call_result_message name response =
     Arr [Obj [(lit ''functionResponse'',
                Obj [(lit ''name'', name), (lit ''response'', Obj response)])]]"

text \<open>
  An operation of this part returns a value or raises, and writes lines with
  \<^verbatim>\<open>console.error\<close>; its result is the pair of the outcome and the lines written.
\<close>

type_synonym tool_result = "(js_exn + jsval) \<times> js_string list"

subsection \<open>The two handlers\<close>

text \<open>
  \<^verbatim>\<open>YoutubeTranscript.fetchTranscript\<close> and mathjs' \<^verbatim>\<open>evaluate\<close> are external
  libraries and enter as parameters. \<open>fetchTranscript url\<close> is what the awaited call
  settles to; \<open>evaluate equation\<close> is what the expression
  \<^verbatim>\<open>evaluate(equation).toString()\<close> yields: a string, or the value thrown on the way.
  In the catch block the thrown value is rendered into the error message; a failure
  raised by that rendering leaves the handler.
\<close>

definition getYoutubeTranscript ::
  "(jsval \<Rightarrow> js_thrown + jsval) \<Rightarrow> js_args \<Rightarrow> jsval \<Rightarrow> tool_result" where
  "getYoutubeTranscript fetchTranscript args name =
     (case get_arg args (lit ''url'') of
        Inl e \<Rightarrow> (Inl e, [])
      | Inr url \<Rightarrow>
          (case fetchTranscript url of
             Inr transcript \<Rightarrow>
               (Inr (function_call_result_message name
                       [(lit ''url'', url), (lit ''content'', transcript)]), [])
           | Inl error \<Rightarrow>
               (case render_thrown error of
                  Inl e \<Rightarrow> (Inl e, [])
                | Inr rendered \<Rightarrow>
                    (let errorMessage = lit ''Error fetching the transcript: '' @ rendered
                     in (Inr (function_call_result_message name
                                [(lit ''url'', url), (lit ''content'', Str errorMessage)]),
                         [errorMessage])))))"

definition calculate ::
  "(jsval \<Rightarrow> js_thrown + js_string) \<Rightarrow> js_args \<Rightarrow> jsval \<Rightarrow> tool_result" where
  "calculate evaluate args name =
     (case get_arg args (lit ''equation'') of
        Inl e \<Rightarrow> (Inl e, [])
      | Inr equation \<Rightarrow>
          (case evaluate equation of
             Inr result \<Rightarrow>
               (Inr (function_call_result_message name
                       [(lit ''equation'', equation), (lit ''content'', Str result)]), [])
           | Inl error \<Rightarrow>
               (case render_thrown error of
                  Inl e \<Rightarrow> (Inl e, [])
                | Inr rendered \<Rightarrow>
                    (let errorMessage = lit ''Error calculating the equation: '' @ rendered
                     in (Inr (function_call_result_message name
                                [(lit ''equation'', equation), (lit ''content'', Str errorMessage)]),
                         [errorMessage])))))"

subsection \<open>manageToolCall\<close>

text \<open>
  The registry \<^verbatim>\<open>tool_calls_to_function\<close> is an object literal with the two keys
  \<^verbatim>\<open>get_youtube_transcript\<close> and \<^verbatim>\<open>calculate\<close>. The lookup
  \<^verbatim>\<open>tool_calls_to_function[functionName]\<close> is an ordinary property read: where the
  object has no own property of that name, the read continues in its prototype,
  \<^verbatim>\<open>Object.prototype\<close>, whose properties are listed below. All of them are functions
  except \<^verbatim>\<open>__proto__\<close>, an accessor that yields \<^verbatim>\<open>Object.prototype\<close> itself.
\<close>

datatype handler = GetYoutubeTranscript | Calculate

datatype resolved = Registered handler | Inherited js_string | Not_found

definition registry_keys :: "js_string list" where
  "registry_keys = [lit ''get_youtube_transcript'', lit ''calculate'']"

definition object_prototype_keys :: "js_string list" where
  "object_prototype_keys =
     [lit ''constructor'', lit ''__defineGetter__'', lit ''__defineSetter__'',
      lit ''hasOwnProperty'', lit ''__lookupGetter__'', lit ''__lookupSetter__'',
      lit ''isPrototypeOf'', lit ''propertyIsEnumerable'', lit ''toString'', lit ''valueOf'',
      lit ''__proto__'', lit ''toLocaleString'']"

text \<open>A property key made from the tool call's name: an absent name reads the key
  \<^verbatim>\<open>"undefined"\<close>, and renders so in a template literal.\<close>

fun name_string :: "js_string option \<Rightarrow> js_string" where
  "name_string None = lit ''undefined''"
| "name_string (Some s) = s"

fun name_value :: "js_string option \<Rightarrow> jsval" where
  "name_value None = Undefined"
| "name_value (Some s) = Str s"

definition tool_calls_to_function :: "js_string \<Rightarrow> resolved" where
  "tool_calls_to_function key =
     (if key = lit ''get_youtube_transcript'' then Registered GetYoutubeTranscript
      else if key = lit ''calculate'' then Registered Calculate
      else if key \<in> set object_prototype_keys then Inherited key
      else Not_found)"

text \<open>
  \<^verbatim>\<open>func(args, functionName)\<close> for a value inherited from \<^verbatim>\<open>Object.prototype\<close>. The
  file is an ECMAScript module, so the call runs with \<^verbatim>\<open>this\<close> equal to
  \<^verbatim>\<open>undefined\<close>: \<^verbatim>\<open>toString\<close> returns \<^verbatim>\<open>"[object Undefined]"\<close>;
  \<^verbatim>\<open>constructor\<close> is \<^verbatim>\<open>Object\<close>, which returns its argument when that is an object
  and a fresh empty object otherwise; \<^verbatim>\<open>isPrototypeOf\<close> returns \<^verbatim>\<open>false\<close> when its
  argument is not an object; every other function converts \<^verbatim>\<open>this\<close> to an object and
  raises a TypeError, and \<^verbatim>\<open>__proto__\<close> is not callable.
\<close>

definition inherited_call :: "js_string \<Rightarrow> js_args \<Rightarrow> js_exn + jsval" where
  "inherited_call key args =
     (if key = lit ''toString'' then Inr (Str (lit ''[object Undefined]''))
      else if key = lit ''constructor'' then
        Inr (case args of Args_obj kvs \<Rightarrow> Obj kvs | _ \<Rightarrow> Obj [])
      else if key = lit ''isPrototypeOf'' then
        (case args of Args_obj kvs \<Rightarrow> Inl TypeError | _ \<Rightarrow> Inr (Bool False))
      else Inl TypeError)"

definition manageToolCall ::
  "(jsval \<Rightarrow> js_thrown + jsval) \<Rightarrow> (jsval \<Rightarrow> js_thrown + js_string) \<Rightarrow> toolcall
     \<Rightarrow> tool_result" where
  "manageToolCall fetchTranscript evaluate toolCall =
     (let functionName = tc_name toolCall in
      case tool_calls_to_function (name_string functionName) of
        Registered GetYoutubeTranscript \<Rightarrow>
          getYoutubeTranscript fetchTranscript (tc_args toolCall) (name_value functionName)
      | Registered Calculate \<Rightarrow>
          calculate evaluate (tc_args toolCall) (name_value functionName)
      | Inherited key \<Rightarrow> (inherited_call key (tc_args toolCall), [])
      | Not_found \<Rightarrow>
          (let errorMessage = lit ''No function found for '' @ name_string functionName
           in (Inr (function_call_result_message (name_value functionName)
                      [(lit ''name'', name_value functionName),
                       (lit ''content'', Str errorMessage)]),
               [errorMessage])))"

section \<open>processFunctionCallsNames\<close>

subsection \<open>String primitives\<close>

text \<open>\<^verbatim>\<open>xs.join(sep)\<close> on an array of strings.\<close>

fun join :: "js_string \<Rightarrow> js_string list \<Rightarrow> js_string" where
  "join sep [] = []"
| "join sep [x] = x"
| "join sep (x # y # ys) = x @ sep @ join sep (y # ys)"





subsection \<open>isNaN on a string\<close>














subsection \<open>String(value)\<close>

text \<open>
  \<^verbatim>\<open>String(value)\<close> on a data value. An array is converted by joining the conversions
  of its elements with commas, \<^verbatim>\<open>undefined\<close> and \<^verbatim>\<open>null\<close> elements giving the empty
  string. An object is converted through its \<^verbatim>\<open>toString\<close> property: the one inherited
  from \<^verbatim>\<open>Object.prototype\<close> gives \<^verbatim>\<open>"[object Object]"\<close>; an own property of that name
  hides it, and since it is not callable and \<^verbatim>\<open>valueOf\<close> yields no primitive, the
  conversion raises a TypeError.
\<close>

fun to_String :: "jsval \<Rightarrow> js_exn + js_string"
  and to_String_elements :: "jsval list \<Rightarrow> js_exn + js_string list" where
  "to_String Undefined = Inr (lit ''undefined'')"
| "to_String Null = Inr (lit ''null'')"
| "to_String (Bool b) = Inr (if b then lit ''true'' else lit ''false'')"
| "to_String (Num rendering) = Inr rendering"
| "to_String (Str s) = Inr s"
| "to_String (Arr xs) =
     (case to_String_elements xs of Inl e \<Rightarrow> Inl e | Inr ss \<Rightarrow> Inr (join (lit '','') ss))"
| "to_String (Obj kvs) =
     (if lit ''toString'' \<in> set (map fst kvs) then Inl TypeError
      else Inr (lit ''[object Object]''))"
| "to_String_elements [] = Inr []"
| "to_String_elements (x # xs) =
     (case (case x of Undefined \<Rightarrow> Inr [] | Null \<Rightarrow> Inr [] | _ \<Rightarrow> to_String x) of
        Inl e \<Rightarrow> Inl e
      | Inr s \<Rightarrow> (case to_String_elements xs of Inl e \<Rightarrow> Inl e | Inr ss \<Rightarrow> Inr (s # ss)))"

subsection \<open>The function\<close>



text \<open>The callback of the \<^verbatim>\<open>map\<close> over \<^verbatim>\<open>Object.entries(tc.args)\<close> (lines 243 to 251).\<close>

definition format_entry :: "js_string \<times> jsval \<Rightarrow> js_exn + js_string" where
  "format_entry kv =
     (case to_String (snd kv) of
        Inl e \<Rightarrow> Inl e
      | Inr stringValue \<Rightarrow>
          (let truncatedValue =
                 (if length stringValue > 500 then take 500 stringValue @ lit ''...''
                  else stringValue)
           in Inr (fst kv @ lit '': '' @ truncatedValue)))"



section \<open>Notions used in the statements\<close>

subsection \<open>Operations given to retryOperation\<close>

text \<open>Invocation \<open>i\<close> of the operation rejects with a value whose \<^verbatim>\<open>message\<close> the
  catch block can render.\<close>

definition fails_readably :: "(nat \<Rightarrow> js_thrown + 'a) \<Rightarrow> nat \<Rightarrow> bool" where
  "fails_readably fn i =
     (case fn i of Inl err \<Rightarrow> (case message_of err of Inr m \<Rightarrow> True | Inl e \<Rightarrow> False)
                 | Inr v \<Rightarrow> False)"

text \<open>\<^verbatim>\<open>async () => { throw new Error("boom") }\<close>\<close>

definition always_boom :: "nat \<Rightarrow> js_thrown + int" where
  "always_boom i = Inl (Thrown_value (Inr (lit ''Error: boom'')) (Inr (lit ''boom'')))"

text \<open>\<^verbatim>\<open>() => Promise.reject()\<close>: every invocation rejects with \<^verbatim>\<open>undefined\<close>.\<close>

definition always_rejects_undefined :: "nat \<Rightarrow> js_thrown + int" where
  "always_rejects_undefined i = Inl Thrown_undefined"

text \<open>An operation that rejects with \<^verbatim>\<open>undefined\<close> when first invoked and resolves
  to 7 from then on.\<close>

definition rejects_undefined_once :: "nat \<Rightarrow> js_thrown + int" where
  "rejects_undefined_once i = (case i of 0 \<Rightarrow> Inl Thrown_undefined | Suc j \<Rightarrow> Inr 7)"

text \<open>An operation that throws \<^verbatim>\<open>new Error("busy")\<close> on its first two invocations and
  resolves to 7 from then on.\<close>

definition busy_twice :: "nat \<Rightarrow> js_thrown + int" where
  "busy_twice i =
     (if i < 2 then Inl (Thrown_value (Inr (lit ''Error: busy'')) (Inr (lit ''busy'')))
      else Inr 7)"

text \<open>\<^verbatim>\<open>async () => 7\<close>\<close>

definition always_seven :: "nat \<Rightarrow> js_thrown + int" where
  "always_seven i = Inr 7"

subsection \<open>The shape of an envelope\<close>

text \<open>The \<^verbatim>\<open>response\<close> object of a value of the form
  \<^verbatim>\<open>[{functionResponse: {name: n, response: {...}}}]\<close>: a sequence of exactly one
  record.\<close>

definition envelope_response :: "jsval \<Rightarrow> (js_string \<times> jsval) list option" where
  "envelope_response v =
     (case v of
        Arr [Obj [(k, Obj [(kn, n), (kr, Obj response)])]] \<Rightarrow>
          if k = lit ''functionResponse'' \<and> kn = lit ''name'' \<and> kr = lit ''response''
          then Some response else None
      | _ \<Rightarrow> None)"

text \<open>An envelope is such a value whose response has a \<^verbatim>\<open>content\<close> field.\<close>

definition is_envelope :: "jsval \<Rightarrow> bool" where
  "is_envelope v =
     (case envelope_response v of
        Some response \<Rightarrow> lit ''content'' \<in> set (map fst response)
      | None \<Rightarrow> False)"

text \<open>The name an envelope carries.\<close>

definition envelope_name :: "jsval \<Rightarrow> jsval option" where
  "envelope_name v =
     (case v of
        Arr [Obj [(k, Obj [(kn, n), (kr, Obj response)])]] \<Rightarrow>
          if k = lit ''functionResponse'' \<and> kn = lit ''name'' \<and> kr = lit ''response''
          then Some n else None
      | _ \<Rightarrow> None)"

text \<open>The fields of a response with the value of \<^verbatim>\<open>content\<close> blanked: two responses
  with the same image differ in the value of \<^verbatim>\<open>content\<close> at most.\<close>

definition blank_content :: "(js_string \<times> jsval) list \<Rightarrow> (js_string \<times> jsval) list" where
  "blank_content response =
     map (\<lambda>kv. if fst kv = lit ''content'' then (fst kv, Undefined) else kv) response"

subsection \<open>Stand-ins for the external libraries\<close>

text \<open>A transcript service that answers, and one that throws
  \<^verbatim>\<open>new Error("Transcript is disabled")\<close>.\<close>

definition fetch_hello :: "jsval \<Rightarrow> js_thrown + jsval" where
  "fetch_hello url = Inr (Arr [Obj [(lit ''text'', Str (lit ''hello''))]])"

definition fetch_disabled :: "jsval \<Rightarrow> js_thrown + jsval" where
  "fetch_disabled url =
     Inl (Thrown_value (Inr (lit ''Error: Transcript is disabled''))
            (Inr (lit ''Transcript is disabled'')))"

text \<open>An evaluator that yields \<^verbatim>\<open>"4"\<close>, and one that throws
  \<^verbatim>\<open>new SyntaxError("Value expected")\<close>.\<close>

definition evaluate_four :: "jsval \<Rightarrow> js_thrown + js_string" where
  "evaluate_four equation = Inr (lit ''4'')"

definition evaluate_syntax_error :: "jsval \<Rightarrow> js_thrown + js_string" where
  "evaluate_syntax_error equation =
     Inl (Thrown_value (Inr (lit ''SyntaxError: Value expected'')) (Inr (lit ''Value expected'')))"

subsection \<open>The summary of a sequence of tool calls, as specified\<close>













text \<open>The rendering of the values that can be rendered.\<close>

definition rendering :: "jsval \<Rightarrow> js_string" where
  "rendering v = (case to_String v of Inr s \<Rightarrow> s | Inl e \<Rightarrow> [])"

subsection \<open>Example inputs of processFunctionCallsNames\<close>











section \<open>Properties of retryOperation\<close>

subsection \<open>Counting the events of a trace\<close>

lemma invocations_simps [simp]:
  "invocations [] = 0"
  "invocations (tr @ tr') = invocations tr + invocations tr'"
  "invocations (Invoked # tr) = Suc (invocations tr)"
  "invocations (Logged s # tr) = invocations tr"
  "invocations (Waited d # tr) = invocations tr"
  by (simp_all add: invocations_def)

lemma waits_simps [simp]:
  "waits [] = []"
  "waits (tr @ tr') = waits tr @ waits tr'"
  "waits (Invoked # tr) = waits tr"
  "waits (Logged s # tr) = waits tr"
  "waits (Waited d # tr) = d # waits tr"
  by (simp_all add: waits_def)

subsection \<open>One iteration of the loop\<close>

text \<open>The five ways through one evaluation of the loop: the loop condition fails and the
  final \<^verbatim>\<open>throw\<close> is reached; the attempt returns; rendering \<^verbatim>\<open>err.message\<close> in the
  catch block raises; the attempt fails with further attempts left; the last attempt
  fails.\<close>

lemma retry_loop_exit:
  "maxRetries < attempt \<Longrightarrow>
   retry_loop fn maxRetries delayMs attempt error tr =
     (case message_of error of
        Inl e \<Rightarrow> (Inl e, tr)
      | Inr m \<Rightarrow> (Inl (Error (lit ''Operation failed after '' @ show_int maxRetries
                               @ lit '' attempts: '' @ m)), tr))"
  by (subst retry_loop.simps) simp

lemma retry_loop_returns:
  "attempt \<le> maxRetries \<Longrightarrow> fn (invocations tr) = Inr v \<Longrightarrow>
   retry_loop fn maxRetries delayMs attempt error tr = (Inr v, tr @ [Invoked])"
  by (subst retry_loop.simps) simp

lemma retry_loop_unreadable:
  "attempt \<le> maxRetries \<Longrightarrow> fn (invocations tr) = Inl err \<Longrightarrow> message_of err = Inl e \<Longrightarrow>
   retry_loop fn maxRetries delayMs attempt error tr = (Inl e, tr @ [Invoked])"
  by (subst retry_loop.simps) simp

lemma retry_loop_again:
  "attempt < maxRetries \<Longrightarrow> fn (invocations tr) = Inl err \<Longrightarrow> message_of err = Inr m \<Longrightarrow>
   retry_loop fn maxRetries delayMs attempt error tr =
     retry_loop fn maxRetries delayMs (attempt + 1) err
       (tr @ [Invoked, Logged (lit ''Attempt '' @ show_int attempt @ lit '' failed: '' @ m),
              Logged (lit ''Waiting '' @ show_int delayMs @ lit ''ms before next attempt...''),
              Waited delayMs])"
  by (subst retry_loop.simps) simp

lemma retry_loop_last:
  "attempt = maxRetries \<Longrightarrow> fn (invocations tr) = Inl err \<Longrightarrow> message_of err = Inr m \<Longrightarrow>
   retry_loop fn maxRetries delayMs attempt error tr =
     (Inl (Error (lit ''Operation failed after '' @ show_int maxRetries
                    @ lit '' attempts: '' @ m)),
      tr @ [Invoked, Logged (lit ''Attempt '' @ show_int attempt @ lit '' failed: '' @ m),
            Logged (lit ''All '' @ show_int maxRetries @ lit '' attempts failed.'')])"
  by (subst retry_loop.simps) (simp add: retry_loop_exit)

subsection \<open>The loop from any iteration on\<close>

lemma fails_readablyD:
  "fails_readably fn i \<Longrightarrow> \<exists>err m. fn i = Inl err \<and> message_of err = Inr m"
  by (auto simp: fails_readably_def split: sum.splits)

lemma retry_loop_success_at:
  assumes "n = nat (k - a)" "0 \<le> a" "a \<le> k" "k \<le> N" "invocations tr = nat a"
    and "\<forall>i. nat a \<le> i \<and> i < nat k \<longrightarrow> fails_readably fn i"
    and "fn (nat k) = Inr v"
  shows "\<exists>tr'. retry_loop fn N d a e tr = (Inr v, tr' @ [Invoked]) \<and> invocations tr' = nat k
            \<and> waits tr' = waits tr @ replicate (nat (k - a)) d"
  using assms
proof (induction n arbitrary: a e tr)
  case 0
  then have "a = k" by simp
  with 0 show ?case by (simp add: retry_loop_returns)
next
  case (Suc n)
  then have lt: "a < k" by linarith
  with Suc.prems have "fails_readably fn (nat a)" by simp
  then obtain err m where f: "fn (nat a) = Inl err" "message_of err = Inr m"
    using fails_readablyD by blast
  let ?tr = "tr @ [Invoked, Logged (lit ''Attempt '' @ show_int a @ lit '' failed: '' @ m),
              Logged (lit ''Waiting '' @ show_int d @ lit ''ms before next attempt...''),
              Waited d]"
  have step: "retry_loop fn N d a e tr = retry_loop fn N d (a + 1) err ?tr"
    using lt Suc.prems f by (intro retry_loop_again) auto
  have inv: "invocations ?tr = nat (a + 1)"
    using Suc.prems by (simp add: nat_add_distrib)
  have "\<exists>tr'. retry_loop fn N d (a + 1) err ?tr = (Inr v, tr' @ [Invoked]) \<and> invocations tr' = nat k
            \<and> waits tr' = waits ?tr @ replicate (nat (k - (a + 1))) d"
  proof (rule Suc.IH)
    show "n = nat (k - (a + 1))" using Suc.prems by linarith
    show "\<forall>i. nat (a + 1) \<le> i \<and> i < nat k \<longrightarrow> fails_readably fn i"
      using Suc.prems by (auto simp: nat_add_distrib)
  qed (use Suc.prems lt inv in auto)
  moreover have "replicate (nat (k - a)) d = d # replicate (nat (k - (a + 1))) d"
  proof -
    have "nat (k - a) = Suc (nat (k - (a + 1)))" using lt by linarith
    then show ?thesis by simp
  qed
  ultimately show ?case using step by (auto simp: replicate_append_same)
qed

lemma retry_loop_exhausted_at:
  assumes "n = nat (N - a)" "0 \<le> a" "a \<le> N" "invocations tr = nat a"
    and "\<forall>i. nat a \<le> i \<and> i < nat N \<longrightarrow> fails_readably fn i"
    and "fn (nat N) = Inl err" "message_of err = Inr m"
  shows "\<exists>tr'. retry_loop fn N d a e tr =
             (Inl (Error (lit ''Operation failed after '' @ show_int N
                            @ lit '' attempts: '' @ m)), tr')
            \<and> invocations tr' = nat N + 1
            \<and> waits tr' = waits tr @ replicate (nat (N - a)) d"
  using assms
proof (induction n arbitrary: a e tr)
  case 0
  then have "a = N" by simp
  with 0 show ?case by (simp add: retry_loop_last)
next
  case (Suc n)
  then have lt: "a < N" by linarith
  with Suc.prems have "fails_readably fn (nat a)" by simp
  then obtain err' m' where f: "fn (nat a) = Inl err'" "message_of err' = Inr m'"
    using fails_readablyD by blast
  let ?tr = "tr @ [Invoked, Logged (lit ''Attempt '' @ show_int a @ lit '' failed: '' @ m'),
              Logged (lit ''Waiting '' @ show_int d @ lit ''ms before next attempt...''),
              Waited d]"
  have step: "retry_loop fn N d a e tr = retry_loop fn N d (a + 1) err' ?tr"
    using lt Suc.prems f by (intro retry_loop_again) auto
  have inv: "invocations ?tr = nat (a + 1)"
    using Suc.prems by (simp add: nat_add_distrib)
  have "\<exists>tr'. retry_loop fn N d (a + 1) err' ?tr =
             (Inl (Error (lit ''Operation failed after '' @ show_int N
                            @ lit '' attempts: '' @ m)), tr')
            \<and> invocations tr' = nat N + 1
            \<and> waits tr' = waits ?tr @ replicate (nat (N - (a + 1))) d"
  proof (rule Suc.IH)
    show "n = nat (N - (a + 1))" using Suc.prems by linarith
    show "\<forall>i. nat (a + 1) \<le> i \<and> i < nat N \<longrightarrow> fails_readably fn i"
      using Suc.prems by (auto simp: nat_add_distrib)
  qed (use Suc.prems lt inv in auto)
  moreover have "replicate (nat (N - a)) d = d # replicate (nat (N - (a + 1))) d"
  proof -
    have "nat (N - a) = Suc (nat (N - (a + 1)))" using lt by linarith
    then show ?thesis by simp
  qed
  ultimately show ?case using step by (auto simp: replicate_append_same)
qed

subsection \<open>Success on attempt \<open>k\<close>\<close>

text \<open>
  When every failure before the first success carries a message that can be rendered,
  the loop behaves as its documentation says: an operation that first succeeds on
  attempt \<open>k\<close> (counted from 0, with \<open>k \<le> maxRetries\<close> and \<^verbatim>\<open>maxRetries\<close> in the range
  where the counter is exact) is invoked exactly \<open>k + 1\<close>
  times, with exactly \<open>k\<close> waits of \<^verbatim>\<open>delayMs\<close> each, and its result is returned; the
  successful invocation is the last event.
\<close>

lemma retryOperation_first_success:
  assumes "int k \<le> maxRetries" and "maxRetries < 2 ^ 53"
    and "\<forall>i<k. fails_readably fn i"
    and "fn k = Inr v"
  shows "\<exists>tr. retryOperation fn maxRetries delayMs = (Inr v, tr @ [Invoked])
            \<and> invocations (tr @ [Invoked]) = k + 1
            \<and> waits (tr @ [Invoked]) = replicate k delayMs"
proof -
  have "\<exists>tr'. retry_loop fn maxRetries delayMs 0 Thrown_undefined [] = (Inr v, tr' @ [Invoked])
           \<and> invocations tr' = nat (int k)
           \<and> waits tr' = waits [] @ replicate (nat (int k - 0)) delayMs"
    by (rule retry_loop_success_at [where n = k]) (use assms(1,3,4) in auto)
  then show ?thesis by (auto simp: retryOperation_def)
qed

text \<open>An operation that throws \<^verbatim>\<open>new Error("busy")\<close> twice and then resolves to 7, run
  with \<^verbatim>\<open>maxRetries = 3\<close> and \<^verbatim>\<open>delayMs = 250\<close>.\<close>

lemma retryOperation_busy_twice:
  "\<exists>tr. retryOperation busy_twice 3 250 = (Inr 7, tr @ [Invoked])
          \<and> invocations (tr @ [Invoked]) = 3 \<and> waits (tr @ [Invoked]) = [250, 250]"
proof -
  have f: "\<forall>i<2. fails_readably busy_twice i"
    by (simp add: fails_readably_def busy_twice_def)
  have s: "busy_twice 2 = Inr 7" by (simp add: busy_twice_def)
  have "int 2 \<le> 3" "(3::int) < 2 ^ 53" by simp_all
  from retryOperation_first_success [OF this f s, of 250]
  show ?thesis by (simp add: numeral_2_eq_2)
qed

text \<open>
  \<^bold>\<open>C4\<close> says that every operation that first succeeds on attempt \<open>k \<le> maxRetries\<close>
  has its result returned after \<open>k + 1\<close> invocations and \<open>k\<close> waits. An operation that
  rejects with \<^verbatim>\<open>undefined\<close> once and resolves to 7 on its second invocation first
  succeeds on attempt 1; with \<^verbatim>\<open>maxRetries = 1\<close> it is invoked once only, never waited
  for, and its result is not returned. The catch block renders \<^verbatim>\<open>err.message\<close> for the
  log (line 27) before it decides to retry, and on \<^verbatim>\<open>undefined\<close> that read raises a
  TypeError, which leaves \<^verbatim>\<open>retryOperation\<close>.
\<close>

theorem retryOperation_undefined_then_success:
  "rejects_undefined_once 0 = Inl Thrown_undefined
   \<and> rejects_undefined_once 1 = Inr 7
   \<and> retryOperation rejects_undefined_once 1 1000 = (Inl TypeError, [Invoked])
   \<and> fst (retryOperation rejects_undefined_once 1 1000) \<noteq> Inr 7
   \<and> invocations (snd (retryOperation rejects_undefined_once 1 1000)) = 1
   \<and> waits (snd (retryOperation rejects_undefined_once 1 1000)) = []"
  by (simp add: retryOperation_def retry_loop_unreadable rejects_undefined_once_def)

subsection \<open>Failure on every attempt\<close>

text \<open>
  When every failure carries a message that can be rendered and \<^verbatim>\<open>maxRetries\<close> is
  not negative and in the range where the counter is exact, an
  operation that fails on every attempt is invoked exactly \<open>maxRetries + 1\<close> times, with
  exactly \<open>maxRetries\<close> waits of \<^verbatim>\<open>delayMs\<close> each, and \<^verbatim>\<open>retryOperation\<close> raises the
  \<^verbatim>\<open>Error\<close> whose message reports \<^verbatim>\<open>maxRetries\<close> as the number of attempts, followed
  by the message of the last failure.
\<close>

lemma retryOperation_exhausted:
  assumes "0 \<le> maxRetries" and "maxRetries < 2 ^ 53"
    and "\<forall>i\<le>nat maxRetries. fails_readably fn i"
    and "fn (nat maxRetries) = Inl err" and "message_of err = Inr m"
  shows "\<exists>tr. retryOperation fn maxRetries delayMs =
               (Inl (Error (lit ''Operation failed after '' @ show_int maxRetries
                              @ lit '' attempts: '' @ m)), tr)
            \<and> invocations tr = nat maxRetries + 1
            \<and> waits tr = replicate (nat maxRetries) delayMs"
proof -
  have "\<exists>tr'. retry_loop fn maxRetries delayMs 0 Thrown_undefined [] =
             (Inl (Error (lit ''Operation failed after '' @ show_int maxRetries
                            @ lit '' attempts: '' @ m)), tr')
           \<and> invocations tr' = nat maxRetries + 1
           \<and> waits tr' = waits [] @ replicate (nat (maxRetries - 0)) delayMs"
    by (rule retry_loop_exhausted_at [where n = "nat maxRetries" and err = err])
       (use assms(1,3,4,5) in auto)
  then show ?thesis by (auto simp: retryOperation_def)
qed

text \<open>An operation that always throws \<^verbatim>\<open>new Error("boom")\<close>, run with
  \<^verbatim>\<open>maxRetries = 2\<close> and \<^verbatim>\<open>delayMs = 1000\<close>: three invocations, two waits, and the
  message speaks of two attempts.\<close>

lemma retryOperation_always_boom:
  "retryOperation always_boom 2 1000 =
     (Inl (Error (lit ''Operation failed after 2 attempts: boom'')),
      [Invoked, Logged (lit ''Attempt 0 failed: boom''),
       Logged (lit ''Waiting 1000ms before next attempt...''), Waited 1000,
       Invoked, Logged (lit ''Attempt 1 failed: boom''),
       Logged (lit ''Waiting 1000ms before next attempt...''), Waited 1000,
       Invoked, Logged (lit ''Attempt 2 failed: boom''),
       Logged (lit ''All 2 attempts failed.'')])"
  by (simp add: retryOperation_def retry_loop.simps always_boom_def show_int_def
        show_nat.simps)

text \<open>
  \<^bold>\<open>C3\<close> says that every operation that fails on every attempt is invoked
  \<open>maxRetries + 1\<close> times, with \<open>maxRetries\<close> waits, before the aggregate error is
  raised. An operation that always rejects with \<^verbatim>\<open>undefined\<close> fails on every attempt;
  with \<^verbatim>\<open>maxRetries = 2\<close> it is invoked once and not three times, there is no wait, and
  the failure raised is not the aggregate error but the TypeError of reading
  \<^verbatim>\<open>err.message\<close> in the catch block (line 27).
\<close>

theorem retryOperation_undefined_rejections:
  "always_rejects_undefined 0 = Inl Thrown_undefined
   \<and> always_rejects_undefined 1 = Inl Thrown_undefined
   \<and> always_rejects_undefined 2 = Inl Thrown_undefined
   \<and> retryOperation always_rejects_undefined 2 1000 = (Inl TypeError, [Invoked])
   \<and> invocations (snd (retryOperation always_rejects_undefined 2 1000)) = 1
   \<and> waits (snd (retryOperation always_rejects_undefined 2 1000)) = []"
  by (simp add: retryOperation_def retry_loop_unreadable always_rejects_undefined_def)

subsection \<open>No retries\<close>

text \<open>
  \<^bold>\<open>C5\<close>. With \<^verbatim>\<open>maxRetries = 0\<close>, whatever the operation does, \<^verbatim>\<open>retryOperation\<close>
  invokes it exactly once and never waits; it returns the operation's result if that
  invocation succeeds and raises if it fails.
\<close>

theorem retryOperation_zero_retries:
  "invocations (snd (retryOperation fn 0 delayMs)) = 1
   \<and> waits (snd (retryOperation fn 0 delayMs)) = []
   \<and> fst (retryOperation fn 0 delayMs) =
       (case fn 0 of
          Inr v \<Rightarrow> Inr v
        | Inl err \<Rightarrow>
            (case message_of err of
               Inl e \<Rightarrow> Inl e
             | Inr m \<Rightarrow> Inl (Error (lit ''Operation failed after 0 attempts: '' @ m))))"
proof (cases "fn 0")
  case (Inr v)
  then show ?thesis by (simp add: retryOperation_def retry_loop_returns)
next
  case (Inl err)
  show ?thesis
  proof (cases "message_of err")
    case (Inl e)
    with \<open>fn 0 = Inl err\<close> show ?thesis by (simp add: retryOperation_def retry_loop_unreadable)
  next
    case (Inr m)
    have "show_int 0 = lit ''0''" by (simp add: show_int_def show_nat.simps)
    with \<open>fn 0 = Inl err\<close> Inr show ?thesis by (simp add: retryOperation_def retry_loop_last)
  qed
qed

subsection \<open>A negative number of retries\<close>

text \<open>
  \<^bold>\<open>C10\<close>. With \<open>maxRetries < 0\<close> the loop body never runs: the operation is not
  invoked, nothing is logged and nothing is returned. The final \<^verbatim>\<open>throw\<close> reads the
  \<^verbatim>\<open>message\<close> of the variable \<^verbatim>\<open>error\<close>, which is still \<^verbatim>\<open>undefined\<close>, so the
  failure raised is a TypeError and not the \<^verbatim>\<open>Error\<close> with the aggregate message.
\<close>

theorem retryOperation_negative_maxRetries:
  "maxRetries < 0 \<Longrightarrow> retryOperation fn maxRetries delayMs = (Inl TypeError, [])"
  by (simp add: retryOperation_def retry_loop_exit)

theorem retryOperation_negative_maxRetries_witness:
  "(-1 :: int) < 0 \<and> always_seven 0 = Inr 7
   \<and> retryOperation always_seven (-1) 1000 = (Inl TypeError, [])
   \<and> invocations (snd (retryOperation always_seven (-1) 1000)) = 0"
  using retryOperation_negative_maxRetries [of "-1" always_seven 1000]
  by (simp add: always_seven_def)

section \<open>Properties of the dispatcher and its handlers\<close>

subsection \<open>What the operations return\<close>

lemma envelope_response_message [simp]:
  "envelope_response (function_call_result_message name response) = Some response"
  by (simp add: envelope_response_def function_call_result_message_def)

lemma envelope_name_message [simp]:
  "envelope_name (function_call_result_message name response) = Some name"
  by (simp add: envelope_name_def function_call_result_message_def)

lemma is_envelope_message:
  "is_envelope (function_call_result_message name response)
     = (lit ''content'' \<in> fst ` set response)"
  by (simp add: is_envelope_def)

lemma tool_calls_to_function_registered:
  "tool_calls_to_function (lit ''get_youtube_transcript'') = Registered GetYoutubeTranscript"
  "tool_calls_to_function (lit ''calculate'') = Registered Calculate"
  by (simp_all add: tool_calls_to_function_def)

text \<open>How a key resolves: to a handler exactly when it is one of the two keys of the
  registry, and to nothing exactly when it is neither such a key nor a property of
  \<^verbatim>\<open>Object.prototype\<close>.\<close>

lemma registered_iff:
  "(\<exists>h. tool_calls_to_function key = Registered h) \<longleftrightarrow> key \<in> set registry_keys"
  by (auto simp: tool_calls_to_function_def registry_keys_def)

lemma not_found_iff:
  "tool_calls_to_function key = Not_found
     \<longleftrightarrow> key \<notin> set registry_keys \<and> key \<notin> set object_prototype_keys"
  by (auto simp: tool_calls_to_function_def registry_keys_def)

text \<open>A handler raises when \<^verbatim>\<open>args\<close> is absent, or when its library fails with a value
  that cannot be rendered into the error message; in every other case it returns an
  array of one record, built from its two arguments, whose response has the argument
  field and \<^verbatim>\<open>content\<close>.\<close>

lemma getYoutubeTranscript_cases:
  "(\<exists>e. getYoutubeTranscript fetchTranscript args name = (Inl e, []))
   \<or> (\<exists>url content errs. get_arg args (lit ''url'') = Inr url
         \<and> getYoutubeTranscript fetchTranscript args name =
             (Inr (function_call_result_message name
                     [(lit ''url'', url), (lit ''content'', content)]), errs))"
  by (cases args) (auto simp: getYoutubeTranscript_def Let_def split: sum.splits)

lemma calculate_cases:
  "(\<exists>e. calculate evaluate args name = (Inl e, []))
   \<or> (\<exists>equation content errs. get_arg args (lit ''equation'') = Inr equation
         \<and> calculate evaluate args name =
             (Inr (function_call_result_message name
                     [(lit ''equation'', equation), (lit ''content'', content)]), errs))"
  by (cases args) (auto simp: calculate_def Let_def split: sum.splits)

lemma getYoutubeTranscript_envelope:
  assumes "fst (getYoutubeTranscript fetchTranscript args name) = Inr v"
  shows "\<exists>url content. get_arg args (lit ''url'') = Inr url
           \<and> v = function_call_result_message name
                   [(lit ''url'', url), (lit ''content'', content)]"
  using getYoutubeTranscript_cases [of fetchTranscript args name] assms by auto

lemma calculate_envelope:
  assumes "fst (calculate evaluate args name) = Inr v"
  shows "\<exists>equation content. get_arg args (lit ''equation'') = Inr equation
           \<and> v = function_call_result_message name
                   [(lit ''equation'', equation), (lit ''content'', content)]"
  using calculate_cases [of evaluate args name] assms by auto

text \<open>With \<^verbatim>\<open>args\<close> an object, a handler returns an envelope whenever its library
  succeeds, and whenever it fails with a value that can be rendered.\<close>

lemma getYoutubeTranscript_returns:
  assumes "args = Args_obj kvs"
    and "(\<exists>t. fetchTranscript (case map_of kvs (lit ''url'') of None \<Rightarrow> Undefined | Some v \<Rightarrow> v)
                = Inr t)
         \<or> (\<exists>err r. fetchTranscript (case map_of kvs (lit ''url'') of None \<Rightarrow> Undefined
                                        | Some v \<Rightarrow> v) = Inl err
               \<and> render_thrown err = Inr r)"
  shows "\<exists>v. fst (getYoutubeTranscript fetchTranscript args name) = Inr v \<and> is_envelope v
            \<and> envelope_name v = Some name"
  using assms
  by (auto simp: getYoutubeTranscript_def Let_def is_envelope_message split: sum.splits)

lemma calculate_returns:
  assumes "args = Args_obj kvs"
    and "(\<exists>t. evaluate (case map_of kvs (lit ''equation'') of None \<Rightarrow> Undefined | Some v \<Rightarrow> v)
                = Inr t)
         \<or> (\<exists>err r. evaluate (case map_of kvs (lit ''equation'') of None \<Rightarrow> Undefined
                                 | Some v \<Rightarrow> v) = Inl err
               \<and> render_thrown err = Inr r)"
  shows "\<exists>v. fst (calculate evaluate args name) = Inr v \<and> is_envelope v
            \<and> envelope_name v = Some name"
  using assms
  by (auto simp: calculate_def Let_def is_envelope_message split: sum.splits)

text \<open>What a handler returns when its library succeeds and what it returns when the
  library fails carry the same name and the same response up to the value of
  \<^verbatim>\<open>content\<close>.\<close>

lemma getYoutubeTranscript_content_only:
  assumes "fst (getYoutubeTranscript fetchTranscript args name) = Inr v"
    and "fst (getYoutubeTranscript fetchTranscript' args name) = Inr v'"
  shows "is_envelope v \<and> is_envelope v' \<and> envelope_name v' = envelope_name v
       \<and> map_option blank_content (envelope_response v')
           = map_option blank_content (envelope_response v)"
  using getYoutubeTranscript_envelope [OF assms(1)] getYoutubeTranscript_envelope [OF assms(2)]
  by (auto simp: blank_content_def is_envelope_message)

lemma calculate_content_only:
  assumes "fst (calculate evaluate args name) = Inr v"
    and "fst (calculate evaluate' args name) = Inr v'"
  shows "is_envelope v \<and> is_envelope v' \<and> envelope_name v' = envelope_name v
       \<and> map_option blank_content (envelope_response v')
           = map_option blank_content (envelope_response v)"
  using calculate_envelope [OF assms(1)] calculate_envelope [OF assms(2)]
  by (auto simp: blank_content_def is_envelope_message)

text \<open>A name that is neither a key of the registry nor a property of
  \<^verbatim>\<open>Object.prototype\<close> gets the standard error envelope and one line on the error
  console; neither external library takes part.\<close>

lemma manageToolCall_not_found:
  assumes "tool_calls_to_function (name_string (tc_name toolCall)) = Not_found"
  shows "manageToolCall fetchTranscript evaluate toolCall =
     (Inr (function_call_result_message (name_value (tc_name toolCall))
             [(lit ''name'', name_value (tc_name toolCall)),
              (lit ''content'',
               Str (lit ''No function found for '' @ name_string (tc_name toolCall)))]),
      [lit ''No function found for '' @ name_string (tc_name toolCall)])"
  using assms by (simp add: manageToolCall_def Let_def)

text \<open>On its two intended paths, a registered handler or no function found, whatever
  \<^verbatim>\<open>manageToolCall\<close> returns is an envelope.\<close>

lemma manageToolCall_envelope:
  assumes "fst (manageToolCall fetchTranscript evaluate toolCall) = Inr v"
    and "tool_calls_to_function (name_string (tc_name toolCall)) = Registered h
         \<or> tool_calls_to_function (name_string (tc_name toolCall)) = Not_found"
  shows "is_envelope v"
proof -
  from assms(2) consider
      (gyt) "tool_calls_to_function (name_string (tc_name toolCall)) = Registered GetYoutubeTranscript"
    | (calc) "tool_calls_to_function (name_string (tc_name toolCall)) = Registered Calculate"
    | (nf) "tool_calls_to_function (name_string (tc_name toolCall)) = Not_found"
    by (cases h) auto
  then show ?thesis
  proof cases
    case gyt
    with assms(1) have "fst (getYoutubeTranscript fetchTranscript (tc_args toolCall)
                               (name_value (tc_name toolCall))) = Inr v"
      by (simp add: manageToolCall_def)
    from getYoutubeTranscript_envelope [OF this] show ?thesis
      by (auto simp: is_envelope_message)
  next
    case calc
    with assms(1) have "fst (calculate evaluate (tc_args toolCall)
                               (name_value (tc_name toolCall))) = Inr v"
      by (simp add: manageToolCall_def)
    from calculate_envelope [OF this] show ?thesis
      by (auto simp: is_envelope_message)
  next
    case nf
    from manageToolCall_not_found [OF nf, of fetchTranscript evaluate] assms(1)
    show ?thesis by (auto simp: is_envelope_message)
  qed
qed

subsection \<open>Names that are not registered\<close>

text \<open>
  \<^bold>\<open>C1\<close> says that every tool call whose name is not a key of the registry gets the
  envelope with the content \<^verbatim>\<open>"No function found for " + name\<close>. The name
  \<^verbatim>\<open>toString\<close> is not a key of the registry, yet \<^verbatim>\<open>tool_calls_to_function["toString"]\<close>
  is the function inherited from \<^verbatim>\<open>Object.prototype\<close>, which is truthy;
  \<^verbatim>\<open>manageToolCall\<close> calls it and returns its result, the string
  \<^verbatim>\<open>"[object Undefined]"\<close>, and writes nothing to the error console.
\<close>

theorem manageToolCall_inherited_name:
  "tool_calls_to_function (lit ''toString'') = Inherited (lit ''toString'')
   \<and> manageToolCall fetchTranscript evaluate
       \<lparr>tc_name = Some (lit ''toString''), tc_args = Args_obj []\<rparr>
     = (Inr (Str (lit ''[object Undefined]'')), [])"
  by (simp add: manageToolCall_def tool_calls_to_function_def object_prototype_keys_def
        inherited_call_def)

subsection \<open>Registered names\<close>

text \<open>
  \<^bold>\<open>C2\<close>. For a tool call whose name is a key of the registry, \<^verbatim>\<open>manageToolCall\<close> is
  the call of the handler registered under that name on \<^verbatim>\<open>toolCall.args\<close> and
  \<^verbatim>\<open>toolCall.name\<close>: it returns the very value the handler returns, writes what the
  handler writes, and raises what the handler raises.
\<close>

theorem manageToolCall_registered:
  "(tc_name toolCall = Some (lit ''get_youtube_transcript'') \<longrightarrow>
      manageToolCall fetchTranscript evaluate toolCall =
        getYoutubeTranscript fetchTranscript (tc_args toolCall)
          (Str (lit ''get_youtube_transcript'')))
   \<and> (tc_name toolCall = Some (lit ''calculate'') \<longrightarrow>
      manageToolCall fetchTranscript evaluate toolCall =
        calculate evaluate (tc_args toolCall) (Str (lit ''calculate'')))"
  by (simp add: manageToolCall_def tool_calls_to_function_def Let_def)

text \<open>A \<^verbatim>\<open>calculate\<close> call that returns the handler's envelope, and a
  \<^verbatim>\<open>get_youtube_transcript\<close> call whose handler raises.\<close>

theorem manageToolCall_registered_witness:
  "manageToolCall fetch_hello evaluate_four
     \<lparr>tc_name = Some (lit ''calculate''),
      tc_args = Args_obj [(lit ''equation'', Str (lit ''2 + 2''))]\<rparr>
   = (Inr (function_call_result_message (Str (lit ''calculate''))
             [(lit ''equation'', Str (lit ''2 + 2'')), (lit ''content'', Str (lit ''4''))]), [])
   \<and> manageToolCall fetch_hello evaluate_four
     \<lparr>tc_name = Some (lit ''get_youtube_transcript''), tc_args = Args_null\<rparr>
   = (Inl TypeError, [])"
  using manageToolCall_registered [of "\<lparr>tc_name = Some (lit ''calculate''),
          tc_args = Args_obj [(lit ''equation'', Str (lit ''2 + 2''))]\<rparr>" fetch_hello evaluate_four]
    manageToolCall_registered [of "\<lparr>tc_name = Some (lit ''get_youtube_transcript''),
          tc_args = Args_null\<rparr>" fetch_hello evaluate_four]
  by (simp add: getYoutubeTranscript_def calculate_def evaluate_four_def)

subsection \<open>Absent arguments\<close>

text \<open>
  \<^bold>\<open>C9\<close>. Both handlers read their argument field (\<^verbatim>\<open>args.url\<close>, \<^verbatim>\<open>args.equation\<close>)
  before their \<^verbatim>\<open>try\<close> block. When \<^verbatim>\<open>args\<close> is \<^verbatim>\<open>undefined\<close> or \<^verbatim>\<open>null\<close> the
  handler raises a TypeError, whatever the external library would do, and for a tool call
  with a registered name the TypeError leaves \<^verbatim>\<open>manageToolCall\<close>: no envelope is
  returned and nothing is written to the error console.
\<close>

theorem handlers_absent_args:
  assumes "args = Args_undefined \<or> args = Args_null"
  shows "getYoutubeTranscript fetchTranscript args name = (Inl TypeError, [])
       \<and> calculate evaluate args name = (Inl TypeError, [])
       \<and> (tc_args toolCall = args \<and>
            (tc_name toolCall = Some (lit ''get_youtube_transcript'')
             \<or> tc_name toolCall = Some (lit ''calculate''))
          \<longrightarrow> manageToolCall fetchTranscript evaluate toolCall = (Inl TypeError, []))"
  using assms
  by (auto simp: manageToolCall_def tool_calls_to_function_def Let_def
        getYoutubeTranscript_def calculate_def)

theorem handlers_absent_args_witness:
  "manageToolCall fetch_hello evaluate_four
     \<lparr>tc_name = Some (lit ''calculate''), tc_args = Args_undefined\<rparr> = (Inl TypeError, [])
   \<and> calculate evaluate_four Args_undefined (Str (lit ''calculate'')) = (Inl TypeError, [])
   \<and> getYoutubeTranscript fetch_hello Args_undefined (Str (lit ''calculate''))
       = (Inl TypeError, [])"
  using handlers_absent_args [of Args_undefined fetch_hello "Str (lit ''calculate'')"
      evaluate_four "\<lparr>tc_name = Some (lit ''calculate''), tc_args = Args_undefined\<rparr>"]
  by simp

subsection \<open>The envelope invariant\<close>

text \<open>
  \<^bold>\<open>C6\<close> says that whatever the three operations return is a sequence of one record
  whose response has a \<^verbatim>\<open>content\<close> field. This holds of the two handlers and of the two
  intended paths of \<^verbatim>\<open>manageToolCall\<close>, as shown above. It fails of
  \<^verbatim>\<open>manageToolCall\<close> on a name inherited from \<^verbatim>\<open>Object.prototype\<close>: for the tool call
  \<^verbatim>\<open>{name: "toString", args: {url: "http://x"}}\<close> the value returned is the string
  \<^verbatim>\<open>"[object Undefined]"\<close>, which is not a sequence, has no record and no
  \<^verbatim>\<open>content\<close>.
\<close>

theorem manageToolCall_returns_no_envelope:
  "manageToolCall fetchTranscript evaluate
       \<lparr>tc_name = Some (lit ''toString''),
        tc_args = Args_obj [(lit ''url'', Str (lit ''http://x''))]\<rparr>
     = (Inr (Str (lit ''[object Undefined]'')), [])
   \<and> envelope_response (Str (lit ''[object Undefined]'')) = None
   \<and> \<not> is_envelope (Str (lit ''[object Undefined]''))"
  by (simp add: manageToolCall_def tool_calls_to_function_def object_prototype_keys_def
        inherited_call_def is_envelope_def envelope_response_def)

section \<open>Properties of processFunctionCallsNames\<close>

subsection \<open>The primitives and their specified counterparts\<close>





subsection \<open>The map that may raise\<close>



subsection \<open>A call with a name never renders as the empty string\<close>






subsection \<open>Arguments\<close>


lemma format_entry_raises:
  "to_String (snd kv) = Inl e \<Longrightarrow> format_entry kv = Inl e"
  by (simp add: format_entry_def)

lemma format_entry_truncates:
  "to_String v = Inr s \<Longrightarrow> 500 < length s \<Longrightarrow>
   format_entry (k, v) = Inr (k @ lit '': '' @ take 500 s @ lit ''...'')"
  by (simp add: format_entry_def Let_def)


subsection \<open>One call\<close>




subsection \<open>The sequence of calls\<close>






subsection \<open>Calls without a name\<close>





subsection \<open>Evaluating the function on given calls\<close>


subsection \<open>The summary\<close>







end
